theory Spec2Isabelle
  imports Main "HOL-Library.Char_ord" "HOL-Library.List_Lexorder" "HOL-Library.Multiset"
begin

section \<open>Country-dependent address fields (components/I18nAddressFields.js)\<close>

subsection \<open>JavaScript values\<close>

text \<open>
  A JavaScript string is a list of characters, one \<^typ>\<open>char\<close> per code unit (the model
  covers code units below 256). The relational operators of JavaScript on strings, the
  default comparison of \<open>Array.prototype.sort\<close> and lodash's \<open>compareAscending\<close> on
  strings are the lexicographic order on code units: the order \<open>\<le>\<close> of
  \<^typ>\<open>string\<close> here.

  Every failure of the code under study is a \<open>TypeError\<close> thrown by the runtime
  (a property read or a method call on \<open>null\<close>/\<open>undefined\<close>).
\<close>

datatype js_error = TypeError

datatype jsval = Undefined | Null | Str string

text \<open>Truthiness, as \<open>if (v)\<close> and \<open>v && ...\<close> test it.\<close>

fun truthy :: "jsval \<Rightarrow> bool" where
  "truthy Undefined = False"
| "truthy Null = False"
| "truthy (Str s) = (s \<noteq> [])"

text \<open>\<open>Array.prototype.indexOf\<close>: the first position of an element, \<open>-1\<close> when absent.\<close>

fun indexOf :: "'a list \<Rightarrow> 'a \<Rightarrow> int" where
  "indexOf [] x = -1"
| "indexOf (y # ys) x = (if y = x then 0 else (let i = indexOf ys x in if i < 0 then -1 else i + 1))"

subsection \<open>The format template: \<open>formLayout.match(/([A-Za-z])\w+/g)\<close>\<close>

definition isAlpha :: "char \<Rightarrow> bool" where
  "isAlpha c = ((CHR ''A'' \<le> c \<and> c \<le> CHR ''Z'') \<or> (CHR ''a'' \<le> c \<and> c \<le> CHR ''z''))"

definition isWordChar :: "char \<Rightarrow> bool" where
  "isWordChar c = (isAlpha c \<or> (CHR ''0'' \<le> c \<and> c \<le> CHR ''9'') \<or> c = CHR ''_'')"

text \<open>
  All the matches of the global regular expression \<open>/([A-Za-z])\w+/g\<close>, left to right.
  A match starts at the first letter that is followed by a word character and takes
  every word character after it (\<open>\w+\<close> is greedy and nothing follows it); the search
  goes on behind the match. A letter followed by no word character matches nothing.
\<close>

function regexMatches :: "string \<Rightarrow> string list" where
  "regexMatches [] = []"
| "regexMatches (c # cs) =
     (if isAlpha c \<and> takeWhile isWordChar cs \<noteq> []
      then (c # takeWhile isWordChar cs) # regexMatches (dropWhile isWordChar cs)
      else regexMatches cs)"
  by pat_completeness auto
termination
  by (relation "measure length") (auto simp: length_dropWhile_le less_Suc_eq_le)

text \<open>\<open>String.prototype.match\<close> with a global expression returns \<open>null\<close> when nothing matches.\<close>

definition js_match :: "string \<Rightarrow> string list option" where
  "js_match s = (case regexMatches s of [] \<Rightarrow> None | m # ms \<Rightarrow> Some (m # ms))"

definition necessaryFields :: "string list" where
  "necessaryFields = [''address1'', ''address2'', ''city'', ''zip'', ''province'']"

text \<open>The renaming of lines 40-48.\<close>

definition mapMatch :: "string \<Rightarrow> string" where
  "mapMatch m = (if m = ''zip'' then ''postalCode'' else if m = ''province'' then ''zone'' else m)"

text \<open>
  Lines 34-48 of \<open>wrangleAddressData\<close>: \<open>formLayout\<close> is \<open>addressInfo.formatting.edit\<close>,
  \<open>None\<close> when \<open>formatting\<close> or \<open>edit\<close> is missing. Calling \<open>match\<close> on a missing
  template throws, and so does calling \<open>filter\<close> on the \<open>null\<close> that \<open>match\<close> returns
  when nothing matches.
\<close>

definition mappedMatches :: "string option \<Rightarrow> js_error + string list" where
  "mappedMatches formLayout =
     (case formLayout of
        None \<Rightarrow> Inl TypeError
      | Some layout \<Rightarrow>
          (case js_match layout of
             None \<Rightarrow> Inl TypeError
           | Some ms \<Rightarrow> Inr (map mapMatch (filter (\<lambda>m. m \<in> set necessaryFields) ms))))"

subsection \<open>The country schema and \<open>wrangleAddressData\<close>\<close>

record zone =
  zone_code :: string
  zone_name :: string

text \<open>
  The object \<open>pick(response, ['formatting', 'labels', 'optionalLabels', 'zones'])\<close>.
  An object's own properties are an association list in insertion order, which is the
  order of \<open>Object.entries\<close> and \<open>Object.keys\<close> for keys that are not array indices.
  A part the provider left out is \<open>None\<close>. The argument of \<open>wrangleAddressData\<close> is
  this object, so the guard of line 31 (an argument that is no object is returned as
  it is) is never taken.
\<close>

record addressInfo =
  formatting_edit :: "string option"
  labels :: "(string \<times> string) list option"
  optionalLabels :: "(string \<times> string) list"
  zones :: "zone list option"

text \<open>An entry \<open>[fieldName, fieldLabel, fieldInfo]\<close> of the resolved list (line 385).\<close>

record addressField =
  fieldName :: string
  fieldLabel :: string
  fieldInfo :: "zone list option"

text \<open>
  Lines 50-54: the entries of \<open>labels\<close> whose key is among the mapped matches, sorted
  (stably) by the position \<open>indexOf\<close> gives their key.
\<close>

definition addressFormFields :: "(string \<times> string) list \<Rightarrow> string list \<Rightarrow> addressField list" where
  "addressFormFields lbls mm =
     sort_key (\<lambda>e. indexOf mm (fieldName e))
       (map (\<lambda>entry. \<lparr>fieldName = fst entry, fieldLabel = snd entry, fieldInfo = None\<rparr>)
          (filter (\<lambda>entry. fst entry \<in> set mm) lbls))"

text \<open>
  Lines 59-60: \<open>find\<close> returns the first entry named \<open>zone\<close> and \<open>push\<close> appends the
  zones to it; with no such entry \<open>find\<close> returns \<open>undefined\<close> and \<open>push\<close> throws.
\<close>

fun pushZones :: "addressField list \<Rightarrow> zone list \<Rightarrow> js_error + addressField list" where
  "pushZones [] zs = Inl TypeError"
| "pushZones (f # fs) zs =
     (if fieldName f = ''zone'' then Inr (f\<lparr>fieldInfo := Some zs\<rparr> # fs)
      else (case pushZones fs zs of Inl e \<Rightarrow> Inl e | Inr fs' \<Rightarrow> Inr (f # fs')))"

definition wrangleAddressData :: "addressInfo \<Rightarrow> js_error + addressField list" where
  "wrangleAddressData addressInfo =
     (case mappedMatches (formatting_edit addressInfo) of
        Inl e \<Rightarrow> Inl e
      | Inr mm \<Rightarrow>
          (case labels addressInfo of
             None \<Rightarrow> Inl TypeError
           | Some lbls \<Rightarrow>
               (let fields = addressFormFields lbls mm;
                    zs = (case zones addressInfo of None \<Rightarrow> [] | Some zs \<Rightarrow> zs)
                in if ''zone'' \<in> set mm \<and> zs \<noteq> [] then pushZones fields zs else Inr fields)))"

subsection \<open>Address values\<close>

text \<open>
  An address value is an object: its own properties in insertion order, each key once.
  Reading a missing property gives \<open>undefined\<close>.
\<close>

type_synonym obj = "(string \<times> jsval) list"

definition getProp :: "obj \<Rightarrow> string \<Rightarrow> jsval" where
  "getProp object k = (case map_of object k of None \<Rightarrow> Undefined | Some v \<Rightarrow> v)"

text \<open>\<open>Array.prototype.join\<close> writes \<open>null\<close> and \<open>undefined\<close> as the empty string.\<close>

fun joinItem :: "jsval \<Rightarrow> string" where
  "joinItem (Str s) = s"
| "joinItem Null = []"
| "joinItem Undefined = []"

fun js_join :: "string \<Rightarrow> jsval list \<Rightarrow> string" where
  "js_join sep [] = []"
| "js_join sep [v] = joinItem v"
| "js_join sep (v # w # vs) = joinItem v @ sep @ js_join sep (w # vs)"

definition serializeAddress :: "obj \<Rightarrow> string" where
  "serializeAddress address =
     js_join [CHR 0x0A] (map (getProp address) (sort (map fst address)))"

text \<open>A property write: an existing key keeps its place, a new key goes last.\<close>

fun assign :: "obj \<Rightarrow> string \<Rightarrow> jsval \<Rightarrow> obj" where
  "assign [] k v = [(k, v)]"
| "assign ((k', v') # ps) k v = (if k' = k then (k, v) # ps else (k', v') # assign ps k v)"

text \<open>
  lodash \<open>pick(object, paths)\<close> for plain property names: a new object that receives,
  path by path, each property the object has.
\<close>

definition pickStep :: "obj \<Rightarrow> obj \<Rightarrow> string \<Rightarrow> obj" where
  "pickStep object result path =
     (case map_of object path of None \<Rightarrow> result | Some v \<Rightarrow> assign result path v)"

definition pick :: "obj \<Rightarrow> string list \<Rightarrow> obj" where
  "pick object paths = foldl (pickStep object) [] paths"

text \<open>
  Objects live in a store and are passed by reference: a reference is a position of the
  store, a new object goes behind the others. The \<open>value\<close> property of the component is
  \<open>undefined\<close>, \<open>null\<close> or a reference. \<open>NoObject\<close> is the model's answer to a reference
  outside the store, which no program value is.
\<close>

type_synonym store = "obj list"

datatype objref = RUndefined | RNull | Ref nat

datatype failure = Thrown js_error | NoObject

definition alloc :: "store \<Rightarrow> obj \<Rightarrow> objref \<times> store" where
  "alloc h object = (Ref (length h), h @ [object])"

text \<open>
  Lines 77-87. \<open>Object.keys\<close> throws on \<open>null\<close> and \<open>undefined\<close>. The function returns
  its argument or the new object \<open>pick\<close> made; it writes to no existing object.
\<close>

definition getAddressFieldDifferences ::
  "store \<Rightarrow> objref \<Rightarrow> addressField list \<Rightarrow> failure + (objref \<times> store)" where
  "getAddressFieldDifferences h formAddressValues addressFields =
     (let addressFieldsArray = map fieldName addressFields in
      case formAddressValues of
        RUndefined \<Rightarrow> Inl (Thrown TypeError)
      | RNull \<Rightarrow> Inl (Thrown TypeError)
      | Ref r \<Rightarrow>
          if r < length h then
            (let differenceInAddressFields =
                   (filter (\<lambda>key. key \<notin> set addressFieldsArray) (map fst (h ! r)) \<noteq> [])
             in if differenceInAddressFields
                then Inr (alloc h (pick (h ! r) addressFieldsArray))
                else Inr (formAddressValues, h))
          else Inl NoObject)"

subsection \<open>Zone options (\<open>ZoneSelect\<close>)\<close>

text \<open>
  lodash \<open>truncate(string, {length})\<close> with the default omission \<open>...\<close>: a string no
  longer than \<open>length\<close> is returned as it is; a longer one is cut so that, with the
  omission behind it, it has \<open>length\<close> characters.
\<close>

definition truncateString :: "string \<Rightarrow> nat \<Rightarrow> string" where
  "truncateString s len =
     (if len \<ge> length s then s
      else if int len - 3 < 1 then ''...''
      else take (len - 3) s @ ''...'')"

record zoneOption =
  option_value :: string
  option_label :: string

definition buildZoneOption :: "zone \<Rightarrow> zoneOption" where
  "buildZoneOption z =
     \<lparr>option_value = zone_name z,
      option_label = truncateString (zone_name z) 30 @ '' - '' @ zone_code z\<rparr>"

text \<open>
  lodash \<open>orderBy(collection, 'label')\<close>: ascending by the key, elements with equal keys
  in their order of the collection.
\<close>

definition orderBy :: "('a \<Rightarrow> string) \<Rightarrow> 'a list \<Rightarrow> 'a list" where
  "orderBy key xs = sort_key key xs"

text \<open>Line 105; \<open>info || []\<close> reads a missing list as the empty one.\<close>

definition zoneOptions :: "zone list option \<Rightarrow> zoneOption list" where
  "zoneOptions info =
     orderBy option_label (map buildZoneOption (case info of None \<Rightarrow> [] | Some zs \<Rightarrow> zs))"

text \<open>
  Lines 108-115, the effect that runs when the options change: the calls it makes to
  \<open>onChange\<close>, each \<open>{target: {name, value}}\<close>. The list of options is an array, which
  is always truthy.
\<close>

record changeEvent =
  target_name :: string
  target_value :: jsval

definition zoneResetEffect :: "zoneOption list \<Rightarrow> jsval \<Rightarrow> string \<Rightarrow> changeEvent list" where
  "zoneResetEffect opts formValueZone nm =
     (if truthy formValueZone \<and> find (\<lambda>opt. Str (option_value opt) = formValueZone) opts = None
      then [\<lparr>target_name = nm, target_value = Null\<rparr>]
      else [])"

subsection \<open>The component: fetching the schema (lines 333-373)\<close>

definition missingCountries :: "string list" where
  "missingCountries = [''AS'', ''AQ'', ''GU'', ''MH'', ''FM'', ''MP'', ''PW'', ''PR'', ''VI'']"

definition country :: "string \<Rightarrow> string" where
  "country selectedCountry =
     (if selectedCountry \<in> set missingCountries then ''US'' else selectedCountry)"










subsection \<open>Notions of the specification, for comparison\<close>

text \<open>
  The specification orders zone options by label without regard to case, lets the
  serialization leave \<open>null\<close> values out, lists each parsed key once, at the place of its
  token's first occurrence, and cuts a long zone name to 30 characters before the
  ellipsis marker. The definitions below write that down as the specification words it;
  the code has none of them.
\<close>

definition toLowerCase :: "string \<Rightarrow> string" where
  "toLowerCase s =
     map (\<lambda>c. if CHR ''A'' \<le> c \<and> c \<le> CHR ''Z'' then char_of (of_char c + (32::nat)) else c) s"

definition serializeNonNull :: "obj \<Rightarrow> string" where
  "serializeNonNull address =
     js_join [CHR 0x0A]
       (filter (\<lambda>v. v \<noteq> Null \<and> v \<noteq> Undefined)
          (map (getProp address) (sort (map fst address))))"



definition truncateAppended :: "string \<Rightarrow> string" where
  "truncateAppended s = (if 30 < length s then take 30 s @ ''...'' else s)"

subsection \<open>Sample data\<close>



definition fieldsCA :: "addressField list" where
  "fieldsCA =
     [\<lparr>fieldName = ''address1'', fieldLabel = ''Address'', fieldInfo = None\<rparr>,
      \<lparr>fieldName = ''address2'', fieldLabel = ''Apartment'', fieldInfo = None\<rparr>,
      \<lparr>fieldName = ''city'', fieldLabel = ''City'', fieldInfo = None\<rparr>,
      \<lparr>fieldName = ''zone'', fieldLabel = ''Province'',
         fieldInfo = Some [\<lparr>zone_code = ''ON'', zone_name = ''Ontario''\<rparr>,
                           \<lparr>zone_code = ''QC'', zone_name = ''Quebec''\<rparr>]\<rparr>,
      \<lparr>fieldName = ''postalCode'', fieldLabel = ''Postal code'', fieldInfo = None\<rparr>]"

definition fieldsDE :: "addressField list" where
  "fieldsDE =
     [\<lparr>fieldName = ''address1'', fieldLabel = ''Street and house number'', fieldInfo = None\<rparr>,
      \<lparr>fieldName = ''address2'', fieldLabel = ''Additional address'', fieldInfo = None\<rparr>,
      \<lparr>fieldName = ''postalCode'', fieldLabel = ''Postal code'', fieldInfo = None\<rparr>,
      \<lparr>fieldName = ''city'', fieldLabel = ''City'', fieldInfo = None\<rparr>]"

definition schemaRepeated :: addressInfo where
  "schemaRepeated =
     \<lparr>formatting_edit = Some ''{city} {zip} {country} {city}'',
      labels = Some [(''postalCode'', ''Postal code''), (''city'', ''City''), (''zone'', ''Region'')],
      optionalLabels = [],
      zones = None\<rparr>"

definition ontarioAddress :: obj where
  "ontarioAddress = [(''address1'', Str ''1 Main St''), (''zone'', Str ''Ontario'')]"


section \<open>Properties\<close>

subsection \<open>Parsing the template\<close>













text \<open>
  C5. Parsing fails exactly when the template is missing; a template without any
  recognized token parses to the empty sequence. The code does so for a template whose
  tokens are all unrecognized, and for a missing template it throws; but on a template
  in which the expression matches nothing (the empty string, pure punctuation)
  \<open>match\<close> returns \<open>null\<close> and the call of \<open>filter\<close> on it throws as well.
\<close>

theorem mappedMatches_throws_without_match:
  "mappedMatches (Some '''') = Inl TypeError
   \<and> mappedMatches (Some '', '') = Inl TypeError
   \<and> mappedMatches (Some ''{{country}}'') = Inr []
   \<and> mappedMatches None = Inl TypeError"
  by code_simp

subsection \<open>The resolved fields\<close>

lemma pushZones_Inr:
  assumes "pushZones (f # fs) zs = Inr fs'"
  obtains "fieldName f = ''zone''" and "fs' = f\<lparr>fieldInfo := Some zs\<rparr> # fs"
  | fs'' where "fieldName f \<noteq> ''zone''" and "pushZones fs zs = Inr fs''" and "fs' = f # fs''"
proof (cases "fieldName f = ''zone''")
  case True
  then show ?thesis using assms that(1) by simp
next
  case False
  then show ?thesis using assms that(2) by (cases "pushZones fs zs") simp_all
qed

lemma pushZones_names: "pushZones fs zs = Inr fs' \<Longrightarrow> map fieldName fs' = map fieldName fs"
proof (induction fs arbitrary: fs')
  case Nil
  then show ?case by simp
next
  case (Cons f fs)
  from Cons.prems show ?case
    by (rule pushZones_Inr) (simp_all add: Cons.IH)
qed

lemma pushZones_labels: "pushZones fs zs = Inr fs' \<Longrightarrow> map fieldLabel fs' = map fieldLabel fs"
proof (induction fs arbitrary: fs')
  case Nil
  then show ?case by simp
next
  case (Cons f fs)
  from Cons.prems show ?case
    by (rule pushZones_Inr) (simp_all add: Cons.IH)
qed

lemma map_pair_cong:
  "map f xs = map f ys \<Longrightarrow> map g xs = map g ys \<Longrightarrow>
   map (\<lambda>x. (f x, g x)) xs = map (\<lambda>x. (f x, g x)) ys"
proof (induction xs arbitrary: ys)
  case Nil
  then show ?case by simp
next
  case (Cons x xs)
  then obtain y ys' where "ys = y # ys'"
    by (cases ys) auto
  then show ?case
    using Cons by simp
qed

lemma entries_addressFormFields:
  "mset (map (\<lambda>f. (fieldName f, fieldLabel f)) (addressFormFields lbls mm))
     = mset (filter (\<lambda>entry. fst entry \<in> set mm) lbls)"
proof -
  let ?mk = "\<lambda>entry. \<lparr>fieldName = fst entry, fieldLabel = snd entry, fieldInfo = None\<rparr>"
  let ?kept = "filter (\<lambda>entry. fst entry \<in> set mm) lbls"
  have "mset (map (\<lambda>f. (fieldName f, fieldLabel f)) (addressFormFields lbls mm))
          = mset (map (\<lambda>f. (fieldName f, fieldLabel f)) (map ?mk ?kept))"
    unfolding addressFormFields_def by (simp only: mset_map mset_sort)
  also have "map (\<lambda>f. (fieldName f, fieldLabel f)) (map ?mk ?kept) = ?kept"
    by (simp add: comp_def)
  finally show ?thesis .
qed

lemma distinct_addressFormFields:
  assumes "distinct (map fst lbls)"
  shows "distinct (map fieldName (addressFormFields lbls mm))"
proof -
  let ?mk = "\<lambda>entry. \<lparr>fieldName = fst entry, fieldLabel = snd entry, fieldInfo = None\<rparr>"
  let ?kept = "filter (\<lambda>entry. fst entry \<in> set mm) lbls"
  have "mset (map fieldName (addressFormFields lbls mm)) = mset (map fieldName (map ?mk ?kept))"
    unfolding addressFormFields_def by (simp only: mset_map mset_sort)
  also have "map fieldName (map ?mk ?kept) = map fst ?kept"
    by (simp add: comp_def)
  finally have "mset (map fieldName (addressFormFields lbls mm)) = mset (map fst ?kept)" .
  moreover have "distinct (map fst ?kept)"
    using assms by (rule distinct_map_filter)
  ultimately show ?thesis
    by (metis mset_eq_imp_distinct_iff)
qed

lemma wrangleAddressData_fields:
  assumes "wrangleAddressData addressInfo = Inr fs"
  obtains lbls mm where "labels addressInfo = Some lbls"
    and "mappedMatches (formatting_edit addressInfo) = Inr mm"
    and "map fieldName fs = map fieldName (addressFormFields lbls mm)"
    and "map fieldLabel fs = map fieldLabel (addressFormFields lbls mm)"
proof -
  from assms obtain mm where mm: "mappedMatches (formatting_edit addressInfo) = Inr mm"
    by (cases "mappedMatches (formatting_edit addressInfo)") (simp_all add: wrangleAddressData_def)
  from assms mm obtain lbls where lbls: "labels addressInfo = Some lbls"
    by (cases "labels addressInfo") (simp_all add: wrangleAddressData_def)
  let ?zs = "case zones addressInfo of None \<Rightarrow> [] | Some zs \<Rightarrow> zs"
  have res: "(if ''zone'' \<in> set mm \<and> ?zs \<noteq> [] then pushZones (addressFormFields lbls mm) ?zs
              else Inr (addressFormFields lbls mm)) = Inr fs"
    using assms mm lbls by (simp add: wrangleAddressData_def Let_def)
  have "map fieldName fs = map fieldName (addressFormFields lbls mm)
        \<and> map fieldLabel fs = map fieldLabel (addressFormFields lbls mm)"
  proof (cases "''zone'' \<in> set mm \<and> ?zs \<noteq> []")
    case True
    then have "pushZones (addressFormFields lbls mm) ?zs = Inr fs"
      using res by simp
    then show ?thesis
      by (simp add: pushZones_names pushZones_labels)
  next
    case False
    then have "Inr (addressFormFields lbls mm) = (Inr fs :: js_error + addressField list)"
      using res by auto
    then show ?thesis by simp
  qed
  then show ?thesis
    using that lbls mm by blast
qed

text \<open>
  C10. The labels are an object, so each of their keys occurs once. Then each field key
  occurs at most once among the resolved fields, however often the template names its
  token: every resolved field is an entry of the labels, with its key and its label.
\<close>

theorem wrangleAddressData_distinct_keys:
  assumes "wrangleAddressData addressInfo = Inr fs"
    and "labels addressInfo = Some lbls"
    and "distinct (map fst lbls)"
  shows "distinct (map fieldName fs)
         \<and> set (map (\<lambda>f. (fieldName f, fieldLabel f)) fs) \<subseteq> set lbls"
proof -
  from assms(1) obtain lbls' mm where l: "labels addressInfo = Some lbls'"
    and names: "map fieldName fs = map fieldName (addressFormFields lbls' mm)"
    and lbs: "map fieldLabel fs = map fieldLabel (addressFormFields lbls' mm)"
    by (rule wrangleAddressData_fields)
  have eq: "lbls' = lbls"
    using l assms(2) by simp
  have d: "distinct (map fieldName fs)"
    unfolding names eq using assms(3) by (rule distinct_addressFormFields)
  have "map (\<lambda>f. (fieldName f, fieldLabel f)) fs
          = map (\<lambda>f. (fieldName f, fieldLabel f)) (addressFormFields lbls mm)"
    using names lbs unfolding eq by (rule map_pair_cong)
  then have "set (map (\<lambda>f. (fieldName f, fieldLabel f)) fs)
      = set_mset (mset (map (\<lambda>f. (fieldName f, fieldLabel f)) (addressFormFields lbls mm)))"
    by simp
  then have "set (map (\<lambda>f. (fieldName f, fieldLabel f)) fs) \<subseteq> set lbls"
    unfolding entries_addressFormFields by auto
  with d show ?thesis by simp
qed

theorem wrangleAddressData_distinct_keys_witness:
  "wrangleAddressData schemaRepeated
     = Inr [\<lparr>fieldName = ''city'', fieldLabel = ''City'', fieldInfo = None\<rparr>,
            \<lparr>fieldName = ''postalCode'', fieldLabel = ''Postal code'', fieldInfo = None\<rparr>]
   \<and> mappedMatches (formatting_edit schemaRepeated) = Inr [''city'', ''postalCode'', ''city'']
   \<and> labels schemaRepeated
       = Some [(''postalCode'', ''Postal code''), (''city'', ''City''), (''zone'', ''Region'')]
   \<and> distinct (map fst [(''postalCode'', ''Postal code''), (''city'', ''City''), (''zone'', ''Region'')])
   \<and> distinct (map fieldName
        [\<lparr>fieldName = ''city'', fieldLabel = ''City'', fieldInfo = None\<rparr>,
         \<lparr>fieldName = ''postalCode'', fieldLabel = ''Postal code'', fieldInfo = None\<rparr>])"
proof -
  have w: "wrangleAddressData schemaRepeated
     = Inr [\<lparr>fieldName = ''city'', fieldLabel = ''City'', fieldInfo = None\<rparr>,
            \<lparr>fieldName = ''postalCode'', fieldLabel = ''Postal code'', fieldInfo = None\<rparr>]"
    by code_simp
  have m: "mappedMatches (formatting_edit schemaRepeated) = Inr [''city'', ''postalCode'', ''city'']"
    by code_simp
  have l: "labels schemaRepeated
       = Some [(''postalCode'', ''Postal code''), (''city'', ''City''), (''zone'', ''Region'')]"
    by (simp add: schemaRepeated_def)
  have d: "distinct (map fst [(''postalCode'', ''Postal code''), (''city'', ''City''), (''zone'', ''Region'')])"
    by simp
  from wrangleAddressData_distinct_keys[OF w l d] w m l d show ?thesis
    by blast
qed

subsection \<open>Reconciling the previous value\<close>

lemma map_of_assign: "map_of (assign ps k v) = (map_of ps)(k \<mapsto> v)"
  by (induction ps) (auto simp: fun_eq_iff)

lemma keys_assign: "fst ` set (assign ps k v) = insert k (fst ` set ps)"
  by (simp add: dom_map_of_conv_image_fst[symmetric] map_of_assign)

lemma distinct_assign: "distinct (map fst ps) \<Longrightarrow> distinct (map fst (assign ps k v))"
  by (induction ps) (auto simp: keys_assign)

lemma map_of_foldl_pickStep:
  "map_of (foldl (pickStep object) acc paths) k =
     (if k \<in> set paths \<and> map_of object k \<noteq> None then map_of object k else map_of acc k)"
  by (induction paths arbitrary: acc) (auto simp: pickStep_def map_of_assign split: option.splits)

lemma distinct_foldl_pickStep:
  "distinct (map fst acc) \<Longrightarrow> distinct (map fst (foldl (pickStep object) acc paths))"
  by (induction paths arbitrary: acc) (auto simp: pickStep_def distinct_assign split: option.splits)

lemma map_of_pick:
  "map_of (pick object paths) k = (if k \<in> set paths then map_of object k else None)"
  by (simp add: pick_def map_of_foldl_pickStep)

lemma distinct_pick: "distinct (map fst (pick object paths))"
  by (simp add: pick_def distinct_foldl_pickStep)

lemma keys_pick: "set (map fst (pick object paths)) = set (map fst object) \<inter> set paths"
proof -
  have "dom (map_of (pick object paths)) = dom (map_of object) \<inter> set paths"
    by (auto simp: map_of_pick dom_def)
  then show ?thesis
    by (simp add: dom_map_of_conv_image_fst)
qed

lemma getProp_pick: "k \<in> set paths \<Longrightarrow> getProp (pick object paths) k = getProp object k"
  by (simp add: getProp_def map_of_pick)

text \<open>
  C3. Let the previous value be an object of the store. If it has a key that no
  resolved field has, the result is a new object, at a reference that was not in the
  store, whose keys are exactly the keys of the previous value that some resolved field
  has, each with the value it had; the store keeps every object it held, the previous
  value among them. If it has no such key, the result is the reference that was passed
  in and the store is the same, so that the value and its serialization are the same.
\<close>

theorem getAddressFieldDifferences_prunes:
  assumes "r < length h"
  shows "if \<exists>k \<in> set (map fst (h ! r)). k \<notin> set (map fieldName fs)
         then \<exists>copy. getAddressFieldDifferences h (Ref r) fs = Inr (Ref (length h), h @ [copy])
                \<and> Ref (length h) \<noteq> Ref r \<and> (h @ [copy]) ! r = h ! r
                \<and> set (map fst copy) = set (map fst (h ! r)) \<inter> set (map fieldName fs)
                \<and> distinct (map fst copy)
                \<and> (\<forall>k \<in> set (map fst copy). getProp copy k = getProp (h ! r) k)
         else getAddressFieldDifferences h (Ref r) fs = Inr (Ref r, h)"
proof (cases "\<exists>k \<in> set (map fst (h ! r)). k \<notin> set (map fieldName fs)")
  case True
  let ?copy = "pick (h ! r) (map fieldName fs)"
  have diff: "filter (\<lambda>key. key \<notin> set (map fieldName fs)) (map fst (h ! r)) \<noteq> []"
    using True by (simp add: filter_empty_conv)
  have "getAddressFieldDifferences h (Ref r) fs = Inr (Ref (length h), h @ [?copy])"
    using assms diff by (simp add: getAddressFieldDifferences_def alloc_def)
  moreover have "Ref (length h) \<noteq> Ref r" "(h @ [?copy]) ! r = h ! r"
    using assms by (simp_all add: nth_append)
  moreover have "set (map fst ?copy) = set (map fst (h ! r)) \<inter> set (map fieldName fs)"
    by (rule keys_pick)
  moreover have "distinct (map fst ?copy)"
    by (rule distinct_pick)
  moreover have "\<forall>k \<in> set (map fst ?copy). getProp ?copy k = getProp (h ! r) k"
    using keys_pick[of "h ! r" "map fieldName fs"] by (auto simp: getProp_pick)
  ultimately show ?thesis
    using True by (simp only: if_True) blast
next
  case False
  then have "filter (\<lambda>key. key \<notin> set (map fieldName fs)) (map fst (h ! r)) = []"
    by (simp add: filter_empty_conv)
  then have "getAddressFieldDifferences h (Ref r) fs = Inr (Ref r, h)"
    using assms by (simp add: getAddressFieldDifferences_def)
  then show ?thesis
    using False by (simp only: if_False)
qed

theorem getAddressFieldDifferences_prunes_witness:
  "(0::nat) < length [ontarioAddress]
   \<and> getAddressFieldDifferences [ontarioAddress] (Ref 0) fieldsDE
       = Inr (Ref 1, [ontarioAddress, [(''address1'', Str ''1 Main St'')]])
   \<and> getAddressFieldDifferences [ontarioAddress] (Ref 0) fieldsCA = Inr (Ref 0, [ontarioAddress])"
proof -
  have len: "(0::nat) < length [ontarioAddress]"
    by simp
  have extra: "\<exists>k \<in> set (map fst ([ontarioAddress] ! 0)). k \<notin> set (map fieldName fieldsDE)"
    by (simp add: ontarioAddress_def fieldsDE_def)
  have none: "\<not> (\<exists>k \<in> set (map fst ([ontarioAddress] ! 0)). k \<notin> set (map fieldName fieldsCA))"
    by (simp add: ontarioAddress_def fieldsCA_def)
  have de: "getAddressFieldDifferences [ontarioAddress] (Ref 0) fieldsDE
       = Inr (Ref 1, [ontarioAddress, [(''address1'', Str ''1 Main St'')]])"
    by code_simp
  from getAddressFieldDifferences_prunes[OF len, of fieldsCA] none
  have "getAddressFieldDifferences [ontarioAddress] (Ref 0) fieldsCA = Inr (Ref 0, [ontarioAddress])"
    by (simp only: if_False)
  with len de show ?thesis
    by blast
qed

text \<open>
  C4. Reconciling a \<open>null\<close> or missing previous value gives the empty object and does
  not fail. The code returns an empty object as it is, but on \<open>null\<close> and on
  \<open>undefined\<close> \<open>Object.keys\<close> throws, whatever the resolved fields are.
\<close>

theorem getAddressFieldDifferences_throws_on_null:
  "getAddressFieldDifferences h RNull addressFields = Inl (Thrown TypeError)
   \<and> getAddressFieldDifferences h RUndefined addressFields = Inl (Thrown TypeError)
   \<and> getAddressFieldDifferences (h @ [[]]) (Ref (length h)) addressFields
       = Inr (Ref (length h), h @ [[]])"
  by (simp add: getAddressFieldDifferences_def)

subsection \<open>The canonical serialization\<close>

lemma getProp_snd: "distinct (map fst a) \<Longrightarrow> p \<in> set a \<Longrightarrow> getProp a (fst p) = snd p"
  by (cases p) (simp add: getProp_def)

lemma map_insort_key: "map f (insort_key f x xs) = insort (f x) (map f xs)"
  by (induction xs) simp_all

lemma sort_keys_map: "sort (map f xs) = map f (sort_key f xs)"
  by (induction xs) (simp_all add: map_insort_key)

lemma serializeAddress_by_pairs:
  assumes "distinct (map fst a)"
  shows "serializeAddress a = js_join [CHR 0x0A] (map snd (sort_key fst a))"
proof -
  have "map (getProp a) (map fst (sort_key fst a)) = map snd (sort_key fst a)"
    using assms by (simp add: getProp_snd)
  then show ?thesis
    unfolding serializeAddress_def sort_keys_map by (rule arg_cong)
qed

lemma sorted_keys_unique:
  assumes "distinct (map fst a)" "distinct (map fst b)" "set a = set b"
  shows "sort (map fst a) = sort (map fst b)"
proof -
  have "set (sort (map fst a)) = set (sort (map fst b))"
    using assms(3) by simp
  moreover have "distinct (sort (map fst a))" "distinct (sort (map fst b))"
    using assms(1,2) by simp_all
  ultimately show ?thesis
    by (intro sorted_distinct_set_unique) simp_all
qed

text \<open>
  C9, as the code has it. The serialization of an address value (an object, each key
  once) is the values of all its keys, taken in the lexicographic order of the keys and
  joined with a line feed, a \<open>null\<close> or \<open>undefined\<close> value written as the empty string
  and not left out. Two address values with the same key/value pairs serialize to the
  same string, in whatever order their keys were inserted.
\<close>

theorem serializeAddress_canonical:
  assumes "distinct (map fst a)" and "distinct (map fst b)" and "set a = set b"
  shows "serializeAddress a = js_join [CHR 0x0A] (map snd (sort_key fst a))
         \<and> serializeAddress b = serializeAddress a"
proof -
  have "map_of a = map_of b"
    using assms by (simp add: map_of_inject_set)
  then have "getProp a = getProp b"
    by (simp add: getProp_def fun_eq_iff)
  then have "serializeAddress b = serializeAddress a"
    using sorted_keys_unique[OF assms] by (simp add: serializeAddress_def)
  then show ?thesis
    using serializeAddress_by_pairs[OF assms(1)] by simp
qed

theorem serializeAddress_canonical_witness:
  "distinct (map fst [(''zone'', Str ''Ontario''), (''city'', Null), (''address1'', Str ''1 Main St'')])
   \<and> distinct (map fst [(''city'', Null), (''address1'', Str ''1 Main St''), (''zone'', Str ''Ontario'')])
   \<and> set [(''zone'', Str ''Ontario''), (''city'', Null), (''address1'', Str ''1 Main St'')]
       = set [(''city'', Null), (''address1'', Str ''1 Main St''), (''zone'', Str ''Ontario'')]
   \<and> serializeAddress [(''zone'', Str ''Ontario''), (''city'', Null), (''address1'', Str ''1 Main St'')]
       = ''1 Main St'' @ [CHR 0x0A] @ [CHR 0x0A] @ ''Ontario''
   \<and> serializeAddress [(''city'', Null), (''address1'', Str ''1 Main St''), (''zone'', Str ''Ontario'')]
       = serializeAddress [(''zone'', Str ''Ontario''), (''city'', Null), (''address1'', Str ''1 Main St'')]"
proof -
  have d1: "distinct (map fst [(''zone'', Str ''Ontario''), (''city'', Null), (''address1'', Str ''1 Main St'')])"
    by simp
  have d2: "distinct (map fst [(''city'', Null), (''address1'', Str ''1 Main St''), (''zone'', Str ''Ontario'')])"
    by simp
  have s: "set [(''zone'', Str ''Ontario''), (''city'', Null), (''address1'', Str ''1 Main St'')]
       = set [(''city'', Null), (''address1'', Str ''1 Main St''), (''zone'', Str ''Ontario'')]"
    by auto
  have v: "js_join [CHR 0x0A] (map snd (sort_key fst [(''zone'', Str ''Ontario''), (''city'', Null), (''address1'', Str ''1 Main St'')]))
      = ''1 Main St'' @ [CHR 0x0A] @ [CHR 0x0A] @ ''Ontario''"
    by code_simp
  show ?thesis
    using serializeAddress_canonical[OF d1 d2 s] d1 d2 s v by simp
qed

text \<open>
  C9, as stated: the values that are not \<open>null\<close> joined with a line separator. For the
  value with a \<open>null\<close> city and the zone \<open>Ontario\<close> that is \<open>Ontario\<close>; the code writes an
  empty line before it.
\<close>

theorem serializeAddress_counterexample:
  "serializeAddress [(''city'', Null), (''zone'', Str ''Ontario'')]
     \<noteq> serializeNonNull [(''city'', Null), (''zone'', Str ''Ontario'')]"
  by code_simp

subsection \<open>Zone options\<close>

lemma truncateString_30:
  "truncateString s 30 = (if length s \<le> 30 then s else take 27 s @ ''...'')"
  by (simp add: truncateString_def)

text \<open>
  C6, as the code has it. Each zone entry gives one option: its value is the entry's
  name (not its code), its label is the truncated name, then \<open> - \<close>, then the code. A
  name of at most 30 characters is kept; a longer one is cut to its first 27 characters
  and the ellipsis marker \<open>...\<close> is put behind them, 30 characters in all. The options
  are these, sorted ascending by their label, which is the truncated one. A missing list
  gives no option.
\<close>

theorem zoneOptions_built_truncated_sorted:
  "mset (zoneOptions (Some zs)) = mset (map buildZoneOption zs)
   \<and> option_value (buildZoneOption z) = zone_name z
   \<and> option_label (buildZoneOption z) =
       (if length (zone_name z) \<le> 30 then zone_name z else take 27 (zone_name z) @ ''...'')
         @ '' - '' @ zone_code z
   \<and> sorted (map option_label (zoneOptions (Some zs)))
   \<and> zoneOptions None = []"
  by (simp add: zoneOptions_def orderBy_def buildZoneOption_def truncateString_30)

text \<open>
  C6, as stated: a name longer than 30 characters is cut to 30 and the ellipsis marker
  appended. For a name of 31 characters the label of the code keeps 27 of them: it is
  not the one with 30, and its first 30 characters are not those of the name.
\<close>

theorem buildZoneOption_truncation_counterexample:
  "length ''ABCDEFGHIJKLMNOPQRSTUVWXYZabcde'' = 31
   \<and> option_label
        (buildZoneOption \<lparr>zone_code = ''X'', zone_name = ''ABCDEFGHIJKLMNOPQRSTUVWXYZabcde''\<rparr>)
       = ''ABCDEFGHIJKLMNOPQRSTUVWXYZa... - X''
   \<and> option_label
        (buildZoneOption \<lparr>zone_code = ''X'', zone_name = ''ABCDEFGHIJKLMNOPQRSTUVWXYZabcde''\<rparr>)
       \<noteq> truncateAppended ''ABCDEFGHIJKLMNOPQRSTUVWXYZabcde'' @ '' - '' @ ''X''
   \<and> take 30 (option_label
        (buildZoneOption \<lparr>zone_code = ''X'', zone_name = ''ABCDEFGHIJKLMNOPQRSTUVWXYZabcde''\<rparr>))
       \<noteq> take 30 ''ABCDEFGHIJKLMNOPQRSTUVWXYZabcde''"
  by code_simp

text \<open>
  C7, as the code has it. The options are sorted ascending by label in the order of the
  code units, in which every upper-case letter comes before every lower-case one (no
  case is folded): \<open>Beta - B\<close> comes before \<open>alpha - A\<close>. There is one option for each
  entry, so equal entries give equal options, and options with the same label keep the
  order of their entries. These three facts fix the list: building it again from the
  same entries gives the same list.
\<close>

theorem zoneOptions_sorted_stable:
  "sorted_wrt (\<lambda>a b. option_label a \<le> option_label b) (zoneOptions (Some zs))
   \<and> length (zoneOptions (Some zs)) = length zs
   \<and> filter (\<lambda>opt. option_label opt = l) (zoneOptions (Some zs))
       = filter (\<lambda>opt. option_label opt = l) (map buildZoneOption zs)
   \<and> zoneOptions (Some [\<lparr>zone_code = ''A'', zone_name = ''alpha''\<rparr>,
                         \<lparr>zone_code = ''B'', zone_name = ''Beta''\<rparr>])
       = [\<lparr>option_value = ''Beta'', option_label = ''Beta - B''\<rparr>,
          \<lparr>option_value = ''alpha'', option_label = ''alpha - A''\<rparr>]"
proof -
  have "sorted (map option_label (zoneOptions (Some zs)))"
    by (simp add: zoneOptions_def orderBy_def)
  then have "sorted_wrt (\<lambda>a b. option_label a \<le> option_label b) (zoneOptions (Some zs))"
    by (simp add: sorted_wrt_map)
  moreover have "length (zoneOptions (Some zs)) = length zs"
    by (simp add: zoneOptions_def orderBy_def)
  moreover have "filter (\<lambda>opt. option_label opt = l) (zoneOptions (Some zs))
       = filter (\<lambda>opt. option_label opt = l) (map buildZoneOption zs)"
    by (simp add: zoneOptions_def orderBy_def sort_key_stable)
  moreover have "zoneOptions (Some [\<lparr>zone_code = ''A'', zone_name = ''alpha''\<rparr>,
                         \<lparr>zone_code = ''B'', zone_name = ''Beta''\<rparr>])
       = [\<lparr>option_value = ''Beta'', option_label = ''Beta - B''\<rparr>,
          \<lparr>option_value = ''alpha'', option_label = ''alpha - A''\<rparr>]"
    by code_simp
  ultimately show ?thesis by simp
qed

text \<open>
  C7, as stated: sorted by label without regard to case, and free of duplicates. For
  the entries \<open>alpha\<close>, \<open>Beta\<close>, \<open>Beta\<close> the list is neither.
\<close>

theorem zoneOptions_counterexample:
  "\<not> sorted (map (toLowerCase \<circ> option_label)
        (zoneOptions (Some [\<lparr>zone_code = ''A'', zone_name = ''alpha''\<rparr>,
                            \<lparr>zone_code = ''B'', zone_name = ''Beta''\<rparr>,
                            \<lparr>zone_code = ''B'', zone_name = ''Beta''\<rparr>])))
   \<and> \<not> distinct
        (zoneOptions (Some [\<lparr>zone_code = ''A'', zone_name = ''alpha''\<rparr>,
                            \<lparr>zone_code = ''B'', zone_name = ''Beta''\<rparr>,
                            \<lparr>zone_code = ''B'', zone_name = ''Beta''\<rparr>]))"
  by code_simp

text \<open>
  C8. The effect that checks the selection emits one update, the field's name with the
  value \<open>null\<close>, exactly when the current value is neither \<open>null\<close>, \<open>undefined\<close> nor the
  empty string and is the value of no option; otherwise it emits nothing, so a value
  that some option has, and a \<open>null\<close> or empty value, stay as they are. With the single
  option \<open>Ontario\<close>, the value \<open>Quebec\<close> is cleared and \<open>Ontario\<close> is kept.
\<close>

theorem zoneResetEffect_clears_iff:
  "zoneResetEffect opts v nm =
     (if v \<noteq> Null \<and> v \<noteq> Undefined \<and> v \<noteq> Str ''''
         \<and> v \<notin> set (map (\<lambda>opt. Str (option_value opt)) opts)
      then [\<lparr>target_name = nm, target_value = Null\<rparr>] else [])
   \<and> zoneResetEffect [\<lparr>option_value = ''Ontario'', option_label = l\<rparr>] (Str ''Quebec'') nm
       = [\<lparr>target_name = nm, target_value = Null\<rparr>]
   \<and> zoneResetEffect [\<lparr>option_value = ''Ontario'', option_label = l\<rparr>] (Str ''Ontario'') nm = []"
  by (cases v) (auto simp: zoneResetEffect_def find_None_iff)

subsection \<open>Fetching the schema\<close>







end
